theory Spec2Isabelle
  imports Main
begin

section \<open>The setup descriptor of CyCAD\<close>

text \<open>
  The repository consists of one file, \<^verbatim>\<open>setup.py\<close>, whose only statement is a call
  \<^verbatim>\<open>setup(name=..., version=..., packages=..., package_dir=..., install_requires=...,
  extras_require=...)\<close>. The keyword arguments of that call are the descriptor. They are
  kept as a record with one field per keyword, in the order of the source. The two dict
  literals, \<^verbatim>\<open>package_dir\<close> and \<^verbatim>\<open>extras_require\<close>, are association lists in the
  order of the literal (a Python dict keeps insertion order); a dict lookup is
  \<^const>\<open>map_of\<close> on them, and no key is repeated in either literal.
\<close>

record setup_kwargs =
  name :: string
  version :: string
  packages :: "string list"
  package_dir :: "(string \<times> string) list"
  install_requires :: "string list"
  extras_require :: "(string \<times> string list) list"

text \<open>
  \<^verbatim>\<open>find_packages\<close> is imported from setuptools and reads the file system when the script
  runs. It is a parameter of the model: a function of the file-system state and of its
  keyword argument \<^verbatim>\<open>where\<close>, returning the list of package names it discovers.
\<close>

type_synonym 'fs find_packages = "'fs \<Rightarrow> string \<Rightarrow> string list"

definition setup_descriptor :: "'fs find_packages \<Rightarrow> 'fs \<Rightarrow> setup_kwargs" where
  "setup_descriptor find_packages fs =
     \<lparr> name = ''CyCAD'',
       version = ''0.1.0'',
       packages = find_packages fs ''src'',
       package_dir = [('''', ''src'')],
       install_requires = [],
       extras_require =
         [(''dev'',
            [''pytest'',
             ''flake8'',
             ''black'',
             ''isort'',
             ''mypy'',
             ''pre-commit''])] \<rparr>"

text \<open>
  Lines 11 to 16 of the source each hold one entry of the \<^verbatim>\<open>"dev"\<close> list followed by a
  comment saying what the tool is for. The comments are no part of the value passed to
  \<^verbatim>\<open>setup\<close>; they are recorded here, line by line, since the specification names the
  entries by these roles.
\<close>

definition dev_line_comments :: "(string \<times> string) list" where
  "dev_line_comments =
     [(''pytest'', ''For testing''),
      (''flake8'', ''For linting''),
      (''black'', ''For code formatting''),
      (''isort'', ''For sorting imports''),
      (''mypy'', ''For type checking''),
      (''pre-commit'', ''For git pre-commit hooks'')]"

subsection \<open>Requirement strings without a version\<close>

text \<open>
  A requirement string of an \<^verbatim>\<open>extras_require\<close> list is a distribution name, optionally
  followed by extras, a version specifier, a URL or an environment marker. The comparison
  operators of a version specifier are built from the characters below. A bare name is a
  non-empty string of letters, digits, \<^verbatim>\<open>-\<close>, \<^verbatim>\<open>_\<close> and \<^verbatim>\<open>.\<close> that begins and ends with a
  letter or a digit, so a bare name carries neither a specifier nor anything else after
  the name.
\<close>

definition version_operator_chars :: "char list" where
  "version_operator_chars = ''=<>!~''"

definition alnum_chars :: "char list" where
  "alnum_chars =
     ''abcdefghijklmnopqrstuvwxyz'' @ ''ABCDEFGHIJKLMNOPQRSTUVWXYZ'' @ ''0123456789''"

definition name_chars :: "char list" where
  "name_chars = alnum_chars @ ''-_.''"

definition bare_tool_name :: "string \<Rightarrow> bool" where
  "bare_tool_name s \<longleftrightarrow>
     s \<noteq> [] \<and> list_all (\<lambda>c. c \<in> set name_chars) s \<and>
     hd s \<in> set alnum_chars \<and> last s \<in> set alnum_chars"

section \<open>Properties of the descriptor\<close>

lemma dev_lookup:
  "map_of (extras_require (setup_descriptor fp fs)) ''dev'' =
     Some [''pytest'', ''flake8'', ''black'', ''isort'', ''mypy'', ''pre-commit'']"
  by (simp add: setup_descriptor_def)

lemma bare_name_no_operator:
  assumes "bare_tool_name s" and "c \<in> set s"
  shows "c \<notin> set version_operator_chars"
proof -
  from assms have "c \<in> set name_chars"
    by (auto simp: bare_tool_name_def list_all_iff)
  then show ?thesis
    by (auto simp: name_chars_def alnum_chars_def version_operator_chars_def)
qed

text \<open>
  C1. The \<^verbatim>\<open>"dev"\<close> group of \<^verbatim>\<open>extras_require\<close> is declared and its list has exactly six
  entries, whatever package discovery returns.
\<close>

theorem dev_group_has_six_entries:
  "map_option length (map_of (extras_require (setup_descriptor fp fs)) ''dev'') = Some 6"
  by (simp add: dev_lookup)

text \<open>
  C2. The \<^verbatim>\<open>"dev"\<close> group is the list pytest, flake8, black, isort, mypy, pre-commit in
  this order, and the comments of the source lines give the entries, in the same order,
  the roles testing, linting, formatting, import sorting, type checking and commit hooks.
\<close>

theorem dev_group_order:
  "map_of (extras_require (setup_descriptor fp fs)) ''dev'' =
     Some [''pytest'', ''flake8'', ''black'', ''isort'', ''mypy'', ''pre-commit'']
   \<and> map_of (extras_require (setup_descriptor fp fs)) ''dev'' =
     Some (map fst dev_line_comments)
   \<and> map snd dev_line_comments =
     [''For testing'', ''For linting'', ''For code formatting'', ''For sorting imports'',
      ''For type checking'', ''For git pre-commit hooks'']"
  by (simp add: dev_lookup dev_line_comments_def)

text \<open>
  C3. The list of required dependencies, \<^verbatim>\<open>install_requires\<close>, is empty.
\<close>

theorem install_requires_empty:
  "install_requires (setup_descriptor fp fs) = []"
  by (simp add: setup_descriptor_def)

text \<open>
  C4. The declared name of the distributable is the string CyCAD.
\<close>

theorem declared_name:
  "name (setup_descriptor fp fs) = ''CyCAD''"
  by (simp add: setup_descriptor_def)

text \<open>
  C5. The declared version is the string 0.1.0.
\<close>

theorem declared_version:
  "version (setup_descriptor fp fs) = ''0.1.0''"
  by (simp add: setup_descriptor_def)

text \<open>
  C6. Looking up the empty prefix in \<^verbatim>\<open>package_dir\<close> gives the directory src, and the
  empty prefix is the only key of that mapping.
\<close>

theorem package_dir_root:
  "map_of (package_dir (setup_descriptor fp fs)) '''' = Some ''src''
   \<and> map fst (package_dir (setup_descriptor fp fs)) = ['''']"
  by (simp add: setup_descriptor_def)

text \<open>
  C7. Every entry of the \<^verbatim>\<open>"dev"\<close> group is a bare tool name without a version: each
  entry \<open>e\<close> of the list found under the key dev is a bare name (in particular it is not
  empty), and no character of \<open>e\<close> is one of the version-operator characters
  \<^verbatim>\<open>=\<close>, \<^verbatim>\<open><\<close>, \<^verbatim>\<open>>\<close>, \<^verbatim>\<open>!\<close>, \<^verbatim>\<open>~\<close>.
\<close>

theorem dev_entries_unversioned:
  assumes "map_of (extras_require (setup_descriptor fp fs)) ''dev'' = Some tools"
    and "e \<in> set tools"
  shows "bare_tool_name e \<and> (\<forall>c\<in>set e. c \<notin> set ''=<>!~'')"
proof -
  from assms(1) have
    tools: "tools = [''pytest'', ''flake8'', ''black'', ''isort'', ''mypy'', ''pre-commit'']"
    by (simp add: dev_lookup)
  have bare: "bare_tool_name e"
    using assms(2) unfolding tools
    by (auto simp: bare_tool_name_def name_chars_def alnum_chars_def)
  have "\<forall>c\<in>set e. c \<notin> set ''=<>!~''"
  proof
    fix c
    assume "c \<in> set e"
    with bare have "c \<notin> set version_operator_chars"
      by (rule bare_name_no_operator)
    then show "c \<notin> set ''=<>!~''"
      by (simp add: version_operator_chars_def)
  qed
  with bare show ?thesis ..
qed

theorem dev_entries_unversioned_witness:
  "map_of (extras_require (setup_descriptor (\<lambda>(u::unit) w. []) ())) ''dev''
     = Some [''pytest'', ''flake8'', ''black'', ''isort'', ''mypy'', ''pre-commit'']
   \<and> ''pre-commit'' \<in> set [''pytest'', ''flake8'', ''black'', ''isort'', ''mypy'', ''pre-commit'']
   \<and> bare_tool_name ''pre-commit''
   \<and> CHR ''-'' \<in> set ''pre-commit'' \<and> CHR ''-'' \<notin> set ''=<>!~''"
proof -
  have h1: "map_of (extras_require (setup_descriptor (\<lambda>(u::unit) w. []) ())) ''dev''
     = Some [''pytest'', ''flake8'', ''black'', ''isort'', ''mypy'', ''pre-commit'']"
    by (simp add: setup_descriptor_def)
  have h2: "''pre-commit'' \<in> set [''pytest'', ''flake8'', ''black'', ''isort'', ''mypy'', ''pre-commit'']"
    by simp
  have h3: "CHR ''-'' \<in> set ''pre-commit''"
    by simp
  from dev_entries_unversioned [OF h1 h2] h1 h2 h3 show ?thesis
    by blast
qed

text \<open>
  C8. The package list is not written out in the descriptor: for every discovery function
  and every state of the file system, the declared \<^verbatim>\<open>packages\<close> are what
  \<^verbatim>\<open>find_packages\<close> returns for the root src in that state, and no fixed list is the
  package list for all outcomes of discovery.
\<close>

theorem packages_discovered:
  "packages (setup_descriptor fp fs) = fp fs ''src''
   \<and> (\<nexists>ps. \<forall>find. packages (setup_descriptor find fs) = ps)"
proof
  show "packages (setup_descriptor fp fs) = fp fs ''src''"
    by (simp add: setup_descriptor_def)
  show "\<nexists>ps. \<forall>find. packages (setup_descriptor find fs) = ps"
  proof
    assume "\<exists>ps. \<forall>find. packages (setup_descriptor find fs) = ps"
    then obtain ps where all: "\<forall>find. packages (setup_descriptor find fs) = ps" ..
    from all have "packages (setup_descriptor (\<lambda>s w. []) fs) = ps" ..
    moreover from all have "packages (setup_descriptor (\<lambda>s w. [w]) fs) = ps" ..
    ultimately show False
      by (simp add: setup_descriptor_def)
  qed
qed

text \<open>
  C9. The \<^verbatim>\<open>extras_require\<close> mapping has exactly one key, dev: the keys of the literal are
  the one-element list dev, and the set of group names with a declared group is the
  singleton of dev, so no other group name has a group.
\<close>

theorem dev_is_only_group:
  "map fst (extras_require (setup_descriptor fp fs)) = [''dev'']
   \<and> dom (map_of (extras_require (setup_descriptor fp fs))) = {''dev''}"
  by (simp add: setup_descriptor_def dom_map_of_conv_image_fst)

text \<open>
  C10. No tool name occurs twice in the \<^verbatim>\<open>"dev"\<close> group: the list found under the key
  dev is some list of pairwise distinct entries.
\<close>

theorem dev_entries_distinct:
  "\<exists>tools. map_of (extras_require (setup_descriptor fp fs)) ''dev'' = Some tools
     \<and> distinct tools"
  by (simp add: dev_lookup)

end
